theory Spec2Isabelle
  imports Complex_Main "HOL-Library.Word"
begin

section \<open>Messages, the recording stream and the node\<close>

text \<open>
  A \<^verbatim>\<open>ros::Time\<close> is represented by the number of seconds that \<^verbatim>\<open>toSec()\<close> returns,
  and a \<^verbatim>\<open>double\<close> or \<^verbatim>\<open>float\<close> by a real number: the code copies these values and
  subtracts two of them, nothing else.
\<close>

type_synonym ros_time = real

datatype vector3 = Vector3 real real real

text \<open>A \<^verbatim>\<open>geometry_msgs/Quaternion\<close>, fields in the order x, y, z, w.\<close>

datatype quaternion = Quaternion real real real real

record header =
  stamp :: ros_time
  frame_id :: string

record transform_stamped =
  tf_header :: header
  child_frame_id :: string
  translation :: vector3
  rotation :: quaternion

record tf_message =
  transforms :: "transform_stamped list"

record imu =
  imu_header :: header
  linear_acceleration :: vector3

record image =
  image_header :: header
  height :: nat
  width :: nat
  encoding :: string
  data :: "8 word list"

text \<open>The nine entries \<^verbatim>\<open>K[0]\<close> to \<^verbatim>\<open>K[8]\<close> of a \<^verbatim>\<open>boost::array<double, 9>\<close>.\<close>

datatype array9 = Array9 real real real real real real real real real

record camera_info =
  camera_info_header :: header
  ci_height :: nat
  ci_width :: nat
  K :: array9

record pose_stamped =
  pose_header :: header
  position :: vector3
  orientation :: quaternion

record odometry =
  odom_header :: header
  pose_position :: vector3
  pose_orientation :: quaternion

text \<open>The matrix that \<^verbatim>\<open>cv_bridge::toCvCopy\<close> returns.\<close>

record cv_mat =
  rows :: nat
  cols :: nat
  mat_encoding :: string
  pixels :: "8 word list"

datatype tensor_buffer = U8 cv_mat | U16 cv_mat | F32 cv_mat

text \<open>
  What is handed to \<^verbatim>\<open>rec.log\<close>. A \<open>DepthImage\<close> carries its resolution, its buffer and
  the argument of \<^verbatim>\<open>with_meter\<close>; a \<open>Transform3D\<close> its translation and the arguments of
  \<^verbatim>\<open>Quaternion::from_wxyz\<close> in that order; a \<open>Pinhole\<close> the nine matrix entries in
  the order the code lists them and the arguments of \<^verbatim>\<open>with_resolution\<close>. The shape
  of an \<open>Image\<close> is computed from the matrix in its buffer and is not kept apart.
\<close>

datatype archetype =
    Scalar real
  | DepthImage "nat \<times> nat" tensor_buffer real
  | Image tensor_buffer
  | Transform3D vector3 "real \<times> real \<times> real \<times> real"
  | Points3D "vector3 list"
  | Pinhole "real list" "nat \<times> nat"

text \<open>
  The recording stream: the time last set on the timeline \<^verbatim>\<open>"timestamp"\<close> by
  \<^verbatim>\<open>set_time_seconds\<close> (none before the first call), and what was logged, each entry
  with its entity path and the time of the stream when it was logged.
\<close>

record recording_stream =
  timestamp :: "real option"
  logged :: "(string \<times> real option \<times> archetype) list"

definition set_time_seconds :: "recording_stream \<Rightarrow> real \<Rightarrow> recording_stream" where
  "set_time_seconds r t = r\<lparr>timestamp := Some t\<rparr>"

definition log :: "recording_stream \<Rightarrow> string \<Rightarrow> archetype \<Rightarrow> recording_stream" where
  "log r entity_path a = r\<lparr>logged := logged r @ [(entity_path, timestamp r, a)]\<rparr>"

text \<open>
  The lines that the modelled functions write to the ROS console with \<^verbatim>\<open>ROS_WARN\<close>.
  The \<^verbatim>\<open>ROS_INFO\<close> lines are not part of the model.
\<close>

datatype rosout =
    Warn_no_entity_path string
  | Warn_transform_exception

text \<open>
  What ends a function early: \<open>Out_of_range\<close> is the exception of \<^verbatim>\<open>std::map::at\<close>,
  \<open>Cv_bridge_exception\<close> the one of \<^verbatim>\<open>cv_bridge::toCvCopy\<close>, \<open>Yaml_exception\<close>
  a failed read of the configuration document; \<open>Index_out_of_bounds\<close> stands for the
  undefined behaviour of an index past the end of a \<^verbatim>\<open>std::vector\<close>.
\<close>

datatype error =
    Out_of_range
  | Cv_bridge_exception
  | Yaml_exception
  | Index_out_of_bounds

text \<open>
  The lambda a subscription was created with, with the values it captures by copy; the
  node itself is captured by reference.
\<close>

datatype callback =
    Image_callback string bool
  | Imu_callback string
  | Pose_stamped_callback string
  | Tf_message_callback
  | Odometry_callback string
  | Camera_info_callback string

text \<open>A \<^verbatim>\<open>ros::Subscriber\<close>: the arguments of the \<^verbatim>\<open>subscribe\<close> call that made it.\<close>

record subscriber =
  sub_topic :: string
  queue_size :: nat
  sub_callback :: callback

text \<open>
  The members of \<^verbatim>\<open>RerunLoggerNode\<close>. \<open>tf_buffer\<close> stands for
  \<^verbatim>\<open>_tf_buffer.lookupTransform(target, source, time, timeout)\<close>, \<open>None\<close> when it throws a
  \<^verbatim>\<open>tf2::TransformException\<close>; \<open>console\<close> is the ROS console of the process, which is
  not a member.
\<close>

record node =
  topic_to_entity_path :: "string \<rightharpoonup> string"
  topic_to_subscriber :: "string \<rightharpoonup> subscriber"
  tf_frame_to_entity_path :: "string \<rightharpoonup> string"
  tf_frame_to_parent :: "string \<rightharpoonup> string"
  rec :: recording_stream
  root_frame :: string
  tf_fixed_rate :: real
  tf_buffer :: "string \<Rightarrow> string \<Rightarrow> ros_time \<Rightarrow> real \<Rightarrow> transform_stamped option"
  time_offset :: real
  time_offset_initialized :: bool
  console :: "rosout list"

section \<open>Timestamp normalizer\<close>

text \<open>
  \<^verbatim>\<open>RerunLoggerNode::_normalize_timestamp\<close>. The two members it writes are
  \<^verbatim>\<open>mutable\<close>, so the model returns the node with the result.
\<close>

definition normalize_timestamp :: "node \<Rightarrow> ros_time \<Rightarrow> real \<times> node" where
  "normalize_timestamp n st =
     (let n' = (if \<not> time_offset_initialized n
                then n\<lparr>time_offset := st, time_offset_initialized := True\<rparr>
                else n)
      in (st - time_offset n', n'))"

text \<open>A sequence of calls, from whatever callers, in the order they happen.\<close>

fun normalize_all :: "node \<Rightarrow> ros_time list \<Rightarrow> real list \<times> node" where
  "normalize_all n [] = ([], n)"
| "normalize_all n (st # sts) =
     (case normalize_timestamp n st of
        (t, n') \<Rightarrow> (case normalize_all n' sts of (ts, n'') \<Rightarrow> (t # ts, n'')))"

section \<open>Entity path resolver\<close>

text \<open>
  \<^verbatim>\<open>std::find(first, last, value)\<close> over a range: the number of elements in front of
  the first match, which is the length of the range when there is none (the iterator
  \<^verbatim>\<open>last\<close>).
\<close>

fun std_find :: "'a list \<Rightarrow> 'a \<Rightarrow> nat" where
  "std_find [] c = 0"
| "std_find (x # xs) c = (if x = c then 0 else Suc (std_find xs c))"

text \<open>
  \<^verbatim>\<open>std::replace(s.begin() + lo, s.begin() + hi, old, new)\<close> on a string, for a
  range \<open>lo \<le> hi \<le> length s\<close>: the elements in front of \<open>lo\<close> and from \<open>hi\<close> on are kept.
\<close>

definition std_replace :: "string \<Rightarrow> nat \<Rightarrow> nat \<Rightarrow> char \<Rightarrow> char \<Rightarrow> string" where
  "std_replace s lo hi old new =
     take lo s @ map (\<lambda>c. if c = old then new else c) (take (hi - lo) (drop lo s)) @ drop hi s"

text \<open>
  The iterator \<^verbatim>\<open>(std::find(s.rbegin(), s.rend(), '/') + 1).base()\<close> of
  \<^verbatim>\<open>_resolve_entity_path\<close>, as an index into the string. The search runs over the
  reversed string; a reverse iterator \<open>k\<close> steps after \<^verbatim>\<open>rbegin()\<close> has the base
  \<open>length s - k\<close>, and one step further the base \<open>length s - k - 1\<close>, the index of the
  last slash. When the string holds no slash the search returns \<^verbatim>\<open>rend()\<close>, and
  \<^verbatim>\<open>rend() + 1\<close> is an iterator in front of \<^verbatim>\<open>begin()\<close>: the behaviour is undefined,
  which the model gives as \<open>None\<close>.
\<close>

definition last_slash :: "string \<Rightarrow> nat option" where
  "last_slash s =
     (let k = std_find (rev s) CHR ''/''
      in if k = length s then None else Some (length s - k - 1))"

text \<open>
  \<^verbatim>\<open>RerunLoggerNode::_resolve_entity_path\<close>, with the member
  \<^verbatim>\<open>_topic_to_entity_path\<close> (a \<^verbatim>\<open>std::map\<close>) as the first argument.
\<close>

definition resolve_entity_path :: "(string \<rightharpoonup> string) \<Rightarrow> string \<Rightarrow> string option" where
  "resolve_entity_path table topic =
     (case table topic of
        Some path \<Rightarrow> Some path
      | None \<Rightarrow>
          (case last_slash topic of
             None \<Rightarrow> None
           | Some ls \<Rightarrow>
               Some (''/topics'' @
                 (if ls \<noteq> 0 then std_replace topic 1 ls CHR ''/'' CHR ''-'' else topic))))"

text \<open>
  \<^verbatim>\<open>std::string::rfind(c)\<close>: the index of the last occurrence, \<open>None\<close> for
  \<^verbatim>\<open>npos\<close>.
\<close>

definition rfind :: "string \<Rightarrow> char \<Rightarrow> nat option" where
  "rfind s c =
     (let k = std_find (rev s) c
      in if k = length s then None else Some (length s - k - 1))"

text \<open>The free function \<^verbatim>\<open>parent_entity_path\<close>.\<close>

definition parent_entity_path :: "string \<Rightarrow> string" where
  "parent_entity_path entity_path =
     (case rfind entity_path CHR ''/'' of
        None \<Rightarrow> ''''
      | Some last_sl \<Rightarrow> take last_sl entity_path)"

section \<open>Configuration and the coordinate frame tree\<close>

text \<open>
  A node of the YAML document under \<^verbatim>\<open>tf.tree\<close>: null, a scalar, or a map with its
  entries in document order. \<^verbatim>\<open>size()\<close> is the number of entries of a map and 0 for
  the other two, and iterating over the other two visits nothing.
\<close>

datatype yaml = YNull | YScalar string | YMap "(string \<times> yaml) list"

fun yaml_size :: "yaml \<Rightarrow> nat" where
  "yaml_size (YMap kvs) = length kvs"
| "yaml_size _ = 0"

text \<open>
  \<^verbatim>\<open>RerunLoggerNode::_add_tf_tree\<close>; the second function is its loop over the entries
  of a map.
\<close>

fun add_tf_tree :: "yaml \<Rightarrow> string \<Rightarrow> string \<Rightarrow> node \<Rightarrow> node"
  and add_tf_children :: "(string \<times> yaml) list \<Rightarrow> string \<Rightarrow> string \<Rightarrow> node \<Rightarrow> node"
where
  "add_tf_tree (YMap kvs) parent_path parent_frame n =
     add_tf_children kvs parent_path parent_frame n"
| "add_tf_tree YNull parent_path parent_frame n = n"
| "add_tf_tree (YScalar v) parent_path parent_frame n = n"
| "add_tf_children [] parent_path parent_frame n = n"
| "add_tf_children ((frame, val) # rest) parent_path parent_frame n =
     (let entity_path = parent_path @ ''/'' @ frame;
          n1 = n\<lparr>tf_frame_to_entity_path := (tf_frame_to_entity_path n)(frame \<mapsto> entity_path),
                 tf_frame_to_parent := (tf_frame_to_parent n)(frame \<mapsto> parent_frame)\<rparr>;
          n2 = (if yaml_size val \<ge> 1 then add_tf_tree val entity_path frame n1 else n1)
      in add_tf_children rest parent_path parent_frame n2)"

text \<open>
  The configuration document, for the documents in which the keys
  \<^verbatim>\<open>extra_transform3ds\<close>, \<^verbatim>\<open>extra_pinholes\<close> and \<^verbatim>\<open>urdf\<close> are absent (their blocks
  are skipped then). A key that is absent is \<open>None\<close>.
\<close>

record tf_config =
  update_rate :: "real option"
  tree :: "yaml option"

record config =
  cfg_topic_to_entity_path :: "(string \<rightharpoonup> string) option"
  tf :: "tf_config option"

text \<open>
  \<^verbatim>\<open>RerunLoggerNode::_read_yaml_config\<close>. The root frame is the key of
  \<^verbatim>\<open>config["tf"]["tree"].begin()\<close>; on a tree without entries that iterator is the end
  iterator and cannot be read.
\<close>

definition read_yaml_config :: "config \<Rightarrow> node \<Rightarrow> error + node" where
  "read_yaml_config cfg n =
     (let n1 = (case cfg_topic_to_entity_path cfg of
                  Some m \<Rightarrow> n\<lparr>topic_to_entity_path := m\<rparr>
                | None \<Rightarrow> n)
      in case tf cfg of
           None \<Rightarrow> Inr n1
         | Some t \<Rightarrow>
             (let n2 = (case update_rate t of
                          Some r \<Rightarrow> n1\<lparr>tf_fixed_rate := r\<rparr>
                        | None \<Rightarrow> n1)
              in case tree t of
                   None \<Rightarrow> Inr n2
                 | Some (YMap ((first_key, v) # rest)) \<Rightarrow>
                     Inr (add_tf_tree (YMap ((first_key, v) # rest)) '''' ''''
                            (n2\<lparr>root_frame := first_key\<rparr>))
                 | Some _ \<Rightarrow> Inl Yaml_exception))"

text \<open>
  The members when the body of the constructor has set up the timestamp normalization and
  is about to read the configuration. The class gives \<^verbatim>\<open>_tf_fixed_rate\<close> no initializer
  and the constructor does not assign it, so the member holds whatever its storage held:
  the first argument. The second argument is the transform buffer.
\<close>

definition members_at_construction ::
  "real \<Rightarrow> (string \<Rightarrow> string \<Rightarrow> ros_time \<Rightarrow> real \<Rightarrow> transform_stamped option) \<Rightarrow> node"
where
  "members_at_construction indeterminate buffer =
     \<lparr>topic_to_entity_path = Map.empty,
      topic_to_subscriber = Map.empty,
      tf_frame_to_entity_path = Map.empty,
      tf_frame_to_parent = Map.empty,
      rec = \<lparr>timestamp = None, logged = []\<rparr>,
      root_frame = '''',
      tf_fixed_rate = indeterminate,
      tf_buffer = buffer,
      time_offset = 0,
      time_offset_initialized = False,
      console = []\<rparr>"

text \<open>The constructor, with the parsed configuration document as its last argument.\<close>

definition RerunLoggerNode ::
  "real \<Rightarrow> (string \<Rightarrow> string \<Rightarrow> ros_time \<Rightarrow> real \<Rightarrow> transform_stamped option) \<Rightarrow>
   config \<Rightarrow> error + node"
where
  "RerunLoggerNode indeterminate buffer cfg =
     read_yaml_config cfg (members_at_construction indeterminate buffer)"

text \<open>
  The timers that \<^verbatim>\<open>RerunLoggerNode::spin\<close> creates before it hands over to the
  spinner, each with its period in seconds and the member function it calls.
\<close>

datatype timer_callback = Create_subscribers | Update_tf

definition spin :: "node \<Rightarrow> (real \<times> timer_callback) list" where
  "spin n =
     [(0.1, Create_subscribers)] @
     (if tf_fixed_rate n \<noteq> 0 then [(1 / tf_fixed_rate n, Update_tf)] else [])"

subsection \<open>The frame tree as the specification describes it\<close>


text \<open>
  The entity path of a frame is the path of the enclosing frame, a \<open>/\<close> and its own name,
  starting from the path given for the outermost level; its parent is the enclosing
  frame, or the parent given for the outermost level.
\<close>

definition chain_entity_path :: "string \<Rightarrow> string list \<Rightarrow> string" where
  "chain_entity_path parent_path chain = parent_path @ concat (map (\<lambda>f. ''/'' @ f) chain)"

definition chain_parent :: "string \<Rightarrow> string list \<Rightarrow> string" where
  "chain_parent parent_frame chain = last (parent_frame # butlast chain)"

definition assign :: "node \<Rightarrow> string \<times> string \<times> string \<Rightarrow> node" where
  "assign n e =
     (case e of (frame, path, parent) \<Rightarrow>
        n\<lparr>tf_frame_to_entity_path := (tf_frame_to_entity_path n)(frame \<mapsto> path),
          tf_frame_to_parent := (tf_frame_to_parent n)(frame \<mapsto> parent)\<rparr>)"


section \<open>Message transcoders\<close>

text \<open>
  The \<^verbatim>\<open>rerun::Transform3D\<close> that the transcoders build from a translation and a
  rotation: the quaternion is handed to \<^verbatim>\<open>from_wxyz\<close> as w, x, y, z.
\<close>

fun transform3d :: "vector3 \<Rightarrow> quaternion \<Rightarrow> archetype" where
  "transform3d t (Quaternion qx qy qz qw) = Transform3D t (qw, qx, qy, qz)"

text \<open>\<^verbatim>\<open>std::map::at\<close>, which throws for a key that is not in the map.\<close>

definition map_at :: "('k \<rightharpoonup> 'v) \<Rightarrow> 'k \<Rightarrow> error + 'v" where
  "map_at m k = (case m k of None \<Rightarrow> Inl Out_of_range | Some v \<Rightarrow> Inr v)"

fun log_imu :: "recording_stream \<Rightarrow> string \<Rightarrow> imu \<Rightarrow> real \<Rightarrow> recording_stream" where
  "log_imu r entity_path msg normalized_timestamp =
     (case linear_acceleration msg of
        Vector3 ax ay az \<Rightarrow>
          (let r1 = set_time_seconds r normalized_timestamp;
               r2 = log r1 (entity_path @ ''/x'') (Scalar ax);
               r3 = log r2 (entity_path @ ''/y'') (Scalar ay)
           in log r3 (entity_path @ ''/z'') (Scalar az)))"

text \<open>
  \<^verbatim>\<open>log_image\<close>. Its first argument stands for \<^verbatim>\<open>cv_bridge::toCvCopy\<close>, called with
  the message and, in the last branch, the encoding \<^verbatim>\<open>"rgb8"\<close> to convert to; it may
  throw.
\<close>

definition log_image ::
  "(image \<Rightarrow> string option \<Rightarrow> error + cv_mat) \<Rightarrow> recording_stream \<Rightarrow> string \<Rightarrow> image \<Rightarrow> real \<Rightarrow>
   error + recording_stream"
where
  "log_image toCvCopy r entity_path msg normalized_timestamp =
     (let r1 = set_time_seconds r normalized_timestamp
      in if encoding msg = ''16UC1'' then
           (case toCvCopy msg None of
              Inl e \<Rightarrow> Inl e
            | Inr img \<Rightarrow> Inr (log r1 entity_path (DepthImage (rows img, cols img) (U16 img) 1000)))
         else if encoding msg = ''32FC1'' then
           (case toCvCopy msg None of
              Inl e \<Rightarrow> Inl e
            | Inr img \<Rightarrow> Inr (log r1 entity_path (DepthImage (rows img, cols img) (F32 img) 1.0)))
         else
           (case toCvCopy msg (Some ''rgb8'') of
              Inl e \<Rightarrow> Inl e
            | Inr img \<Rightarrow> Inr (log r1 entity_path (Image (U8 img)))))"

fun log_pose_stamped :: "recording_stream \<Rightarrow> string \<Rightarrow> pose_stamped \<Rightarrow> real \<Rightarrow> recording_stream" where
  "log_pose_stamped r entity_path msg normalized_timestamp =
     (let r1 = set_time_seconds r normalized_timestamp;
          r2 = log r1 entity_path (transform3d (position msg) (orientation msg));
          trajectory_entity_path = ''/trajectories/'' @ entity_path
      in log r2 trajectory_entity_path (Points3D [position msg]))"

text \<open>
  \<^verbatim>\<open>log_tf_message\<close>; the first function is its loop over \<^verbatim>\<open>msg->transforms\<close>, which
  collects the warnings next to the recording stream.
\<close>

fun log_tf_transforms ::
  "recording_stream \<Rightarrow> rosout list \<Rightarrow> (string \<rightharpoonup> string) \<Rightarrow> transform_stamped list \<Rightarrow> real \<Rightarrow>
   error + recording_stream \<times> rosout list"
where
  "log_tf_transforms r w frame_to_path [] normalized_timestamp = Inr (r, w)"
| "log_tf_transforms r w frame_to_path (transform # rest) normalized_timestamp =
     (if frame_to_path (child_frame_id transform) = None then
        log_tf_transforms r (w @ [Warn_no_entity_path (child_frame_id transform)])
          frame_to_path rest normalized_timestamp
      else
        (let r1 = set_time_seconds r normalized_timestamp
         in case map_at frame_to_path (child_frame_id transform) of
              Inl e \<Rightarrow> Inl e
            | Inr path \<Rightarrow>
                log_tf_transforms
                  (log r1 path (transform3d (translation transform) (rotation transform)))
                  w frame_to_path rest normalized_timestamp))"

definition log_tf_message ::
  "recording_stream \<Rightarrow> (string \<rightharpoonup> string) \<Rightarrow> tf_message \<Rightarrow> real \<Rightarrow>
   error + recording_stream \<times> rosout list"
where
  "log_tf_message r frame_to_path msg normalized_timestamp =
     log_tf_transforms r [] frame_to_path (transforms msg) normalized_timestamp"

fun log_odometry :: "recording_stream \<Rightarrow> string \<Rightarrow> odometry \<Rightarrow> real \<Rightarrow> recording_stream" where
  "log_odometry r entity_path msg normalized_timestamp =
     (let r1 = set_time_seconds r normalized_timestamp
      in log r1 entity_path (transform3d (pose_position msg) (pose_orientation msg)))"

text \<open>
  \<^verbatim>\<open>log_camera_info\<close>. It takes the normalized timestamp and does not call
  \<^verbatim>\<open>set_time_seconds\<close>.
\<close>

fun log_camera_info :: "recording_stream \<Rightarrow> string \<Rightarrow> camera_info \<Rightarrow> real \<Rightarrow> recording_stream" where
  "log_camera_info r entity_path msg normalized_timestamp =
     (case K msg of
        Array9 k0 k1 k2 k3 k4 k5 k6 k7 k8 \<Rightarrow>
          log r entity_path
            (Pinhole [k0, k3, k6, k1, k4, k7, k2, k5, k8] (ci_width msg, ci_height msg)))"

fun log_transform :: "recording_stream \<Rightarrow> string \<Rightarrow> transform_stamped \<Rightarrow> real \<Rightarrow> recording_stream" where
  "log_transform r entity_path msg normalized_timestamp =
     (let r1 = set_time_seconds r normalized_timestamp
      in log r1 entity_path (transform3d (translation msg) (rotation msg)))"

text \<open>
  \<^verbatim>\<open>with_meter(m)\<close> says how many native units of the depth values make one metre, so a
  depth value is turned into metres by the factor \<open>1 / m\<close>.
\<close>

fun depth_scale :: "archetype \<Rightarrow> real option" where
  "depth_scale (DepthImage res buf m) = Some (1 / m)"
| "depth_scale _ = None"

fun is_depth_image :: "archetype \<Rightarrow> bool" where
  "is_depth_image (DepthImage res buf m) = True"
| "is_depth_image _ = False"

section \<open>Subscriptions\<close>

text \<open>
  The subscriber factories. Each resolves the entity path first; where that has no
  defined result, neither has the factory.
\<close>

definition create_image_subscriber :: "node \<Rightarrow> string \<Rightarrow> subscriber option" where
  "create_image_subscriber n topic =
     (case resolve_entity_path (topic_to_entity_path n) topic of
        None \<Rightarrow> None
      | Some entity_path \<Rightarrow>
          (let lookup_transform = (topic_to_entity_path n topic = None)
           in Some \<lparr>sub_topic = topic, queue_size = 100,
                    sub_callback = Image_callback entity_path lookup_transform\<rparr>))"

definition create_imu_subscriber :: "node \<Rightarrow> string \<Rightarrow> subscriber option" where
  "create_imu_subscriber n topic =
     (case resolve_entity_path (topic_to_entity_path n) topic of
        None \<Rightarrow> None
      | Some entity_path \<Rightarrow>
          Some \<lparr>sub_topic = topic, queue_size = 100, sub_callback = Imu_callback entity_path\<rparr>)"

definition create_pose_stamped_subscriber :: "node \<Rightarrow> string \<Rightarrow> subscriber option" where
  "create_pose_stamped_subscriber n topic =
     (case resolve_entity_path (topic_to_entity_path n) topic of
        None \<Rightarrow> None
      | Some entity_path \<Rightarrow>
          Some \<lparr>sub_topic = topic, queue_size = 100,
                sub_callback = Pose_stamped_callback entity_path\<rparr>)"

definition create_tf_message_subscriber :: "node \<Rightarrow> string \<Rightarrow> subscriber option" where
  "create_tf_message_subscriber n topic =
     (case resolve_entity_path (topic_to_entity_path n) topic of
        None \<Rightarrow> None
      | Some entity_path \<Rightarrow>
          Some \<lparr>sub_topic = topic, queue_size = 100, sub_callback = Tf_message_callback\<rparr>)"

definition create_odometry_subscriber :: "node \<Rightarrow> string \<Rightarrow> subscriber option" where
  "create_odometry_subscriber n topic =
     (case resolve_entity_path (topic_to_entity_path n) topic of
        None \<Rightarrow> None
      | Some entity_path \<Rightarrow>
          Some \<lparr>sub_topic = topic, queue_size = 100, sub_callback = Odometry_callback entity_path\<rparr>)"

definition create_camera_info_subscriber :: "node \<Rightarrow> string \<Rightarrow> subscriber option" where
  "create_camera_info_subscriber n topic =
     (case resolve_entity_path (topic_to_entity_path n) topic of
        None \<Rightarrow> None
      | Some resolved \<Rightarrow>
          (let entity_path = (if topic_to_entity_path n topic = None
                              then parent_entity_path resolved else resolved)
           in Some \<lparr>sub_topic = topic, queue_size = 100,
                    sub_callback = Camera_info_callback entity_path\<rparr>))"

text \<open>
  The factory that \<^verbatim>\<open>_create_subscribers\<close> picks for a datatype, \<open>None\<close> for a datatype
  that none of its branches names.
\<close>

definition subscriber_factory :: "string \<Rightarrow> (node \<Rightarrow> string \<Rightarrow> subscriber option) option" where
  "subscriber_factory datatype =
     (if datatype = ''sensor_msgs/Image'' then Some create_image_subscriber
      else if datatype = ''sensor_msgs/Imu'' then Some create_imu_subscriber
      else if datatype = ''geometry_msgs/PoseStamped'' then Some create_pose_stamped_subscriber
      else if datatype = ''tf2_msgs/TFMessage'' then Some create_tf_message_subscriber
      else if datatype = ''nav_msgs/Odometry'' then Some create_odometry_subscriber
      else if datatype = ''sensor_msgs/CameraInfo'' then Some create_camera_info_subscriber
      else None)"

text \<open>
  \<^verbatim>\<open>RerunLoggerNode::_create_subscribers\<close>, as its loop over the topics that
  \<^verbatim>\<open>ros::master::getTopics\<close> returned, each with its name and datatype. The result holds
  the node and, in order, the subscriptions made by the \<^verbatim>\<open>subscribe\<close> calls of this
  poll.
\<close>

fun create_subscribers :: "(string \<times> string) list \<Rightarrow> node \<Rightarrow> (node \<times> subscriber list) option" where
  "create_subscribers [] n = Some (n, [])"
| "create_subscribers ((name, datatype) # rest) n =
     (if topic_to_subscriber n name \<noteq> None then create_subscribers rest n
      else
        (case subscriber_factory datatype of
           None \<Rightarrow> create_subscribers rest n
         | Some create \<Rightarrow>
             (case create n name of
                None \<Rightarrow> None
              | Some s \<Rightarrow>
                  (case create_subscribers rest
                          (n\<lparr>topic_to_subscriber := (topic_to_subscriber n)(name \<mapsto> s)\<rparr>) of
                     None \<Rightarrow> None
                   | Some (n', made) \<Rightarrow> Some (n', s # made)))))"

section \<open>Subscription callbacks\<close>

text \<open>
  The bodies of the lambdas given to \<^verbatim>\<open>subscribe\<close>, with the captured values as the
  first arguments, then the node and the message delivered.
\<close>

definition imu_callback :: "string \<Rightarrow> node \<Rightarrow> imu \<Rightarrow> node" where
  "imu_callback entity_path n msg =
     (case normalize_timestamp n (stamp (imu_header msg)) of
        (normalized_timestamp, n1) \<Rightarrow>
          n1\<lparr>rec := log_imu (rec n1) entity_path msg normalized_timestamp\<rparr>)"

definition pose_stamped_callback :: "string \<Rightarrow> node \<Rightarrow> pose_stamped \<Rightarrow> node" where
  "pose_stamped_callback entity_path n msg =
     (case normalize_timestamp n (stamp (pose_header msg)) of
        (normalized_timestamp, n1) \<Rightarrow>
          n1\<lparr>rec := log_pose_stamped (rec n1) entity_path msg normalized_timestamp\<rparr>)"

definition odometry_callback :: "string \<Rightarrow> node \<Rightarrow> odometry \<Rightarrow> node" where
  "odometry_callback entity_path n msg =
     (case normalize_timestamp n (stamp (odom_header msg)) of
        (normalized_timestamp, n1) \<Rightarrow>
          n1\<lparr>rec := log_odometry (rec n1) entity_path msg normalized_timestamp\<rparr>)"

definition camera_info_callback :: "string \<Rightarrow> node \<Rightarrow> camera_info \<Rightarrow> node" where
  "camera_info_callback entity_path n msg =
     (case normalize_timestamp n (stamp (camera_info_header msg)) of
        (normalized_timestamp, n1) \<Rightarrow>
          n1\<lparr>rec := log_camera_info (rec n1) entity_path msg normalized_timestamp\<rparr>)"

text \<open>
  The transform list is a \<^verbatim>\<open>std::vector\<close>, and \<^verbatim>\<open>msg->transforms[0]\<close> is read before
  anything else.
\<close>

definition tf_message_callback :: "node \<Rightarrow> tf_message \<Rightarrow> error + node" where
  "tf_message_callback n msg =
     (case transforms msg of
        [] \<Rightarrow> Inl Index_out_of_bounds
      | first_transform # others \<Rightarrow>
          (case normalize_timestamp n (stamp (tf_header first_transform)) of
             (normalized_timestamp, n1) \<Rightarrow>
               (case log_tf_message (rec n1) (tf_frame_to_entity_path n1) msg normalized_timestamp of
                  Inl e \<Rightarrow> Inl e
                | Inr (r, w) \<Rightarrow> Inr (n1\<lparr>rec := r, console := console n1 @ w\<rparr>))))"

definition image_callback ::
  "(image \<Rightarrow> string option \<Rightarrow> error + cv_mat) \<Rightarrow> string \<Rightarrow> bool \<Rightarrow> node \<Rightarrow> image \<Rightarrow> error + node"
where
  "image_callback toCvCopy entity_path lookup_transform n msg =
     (case normalize_timestamp n (stamp (image_header msg)) of
        (normalized_timestamp, n1) \<Rightarrow>
          (let n2 =
             (if root_frame n1 \<noteq> '''' \<and> lookup_transform then
                (case tf_buffer n1 (root_frame n1) (frame_id (image_header msg))
                        (stamp (image_header msg)) 0.1 of
                   Some transform \<Rightarrow>
                     n1\<lparr>rec := log_transform (rec n1) (parent_entity_path entity_path)
                                  transform normalized_timestamp\<rparr>
                 | None \<Rightarrow> n1\<lparr>console := console n1 @ [Warn_transform_exception]\<rparr>)
              else n1)
           in case log_image toCvCopy (rec n2) entity_path msg normalized_timestamp of
                Inl e \<Rightarrow> Inl e
              | Inr r \<Rightarrow> Inr (n2\<lparr>rec := r\<rparr>)))"

section \<open>Notions for the statements about the transcoders and the poll\<close>

text \<open>What \<^verbatim>\<open>log_tf_message\<close> is to log for one entry of the list, if anything.\<close>

definition tf_emission ::
  "(string \<rightharpoonup> string) \<Rightarrow> real \<Rightarrow> transform_stamped \<Rightarrow> (string \<times> real option \<times> archetype) option"
where
  "tf_emission frame_to_path t transform =
     (case frame_to_path (child_frame_id transform) of
        None \<Rightarrow> None
      | Some path \<Rightarrow>
          Some (path, Some t, transform3d (translation transform) (rotation transform)))"

text \<open>
  What one poll does: it changes the bindings only, keeps every binding there was, and
  adds one binding for each subscription it made, each for a different topic that was
  not bound; afterwards every topic of the registry with a supported datatype is bound.
\<close>

definition poll_effect :: "(string \<times> string) list \<Rightarrow> node \<Rightarrow> node \<Rightarrow> subscriber list \<Rightarrow> bool" where
  "poll_effect reg n n' made \<longleftrightarrow>
     n' = n\<lparr>topic_to_subscriber := topic_to_subscriber n'\<rparr> \<and>
     (\<forall>name s. topic_to_subscriber n name = Some s \<longrightarrow> topic_to_subscriber n' name = Some s) \<and>
     (\<forall>s \<in> set made. topic_to_subscriber n (sub_topic s) = None \<and>
                      topic_to_subscriber n' (sub_topic s) = Some s) \<and>
     distinct (map sub_topic made) \<and>
     dom (topic_to_subscriber n') = dom (topic_to_subscriber n) \<union> sub_topic ` set made \<and>
     (\<forall>(name, datatype) \<in> set reg.
        subscriber_factory datatype \<noteq> None \<longrightarrow> topic_to_subscriber n' name \<noteq> None)"

section \<open>Facts about the search and the replacement\<close>

lemma std_find_le: "std_find xs c \<le> length xs"
  by (induction xs) auto

lemma std_find_less_iff: "std_find xs c < length xs \<longleftrightarrow> c \<in> set xs"
  by (induction xs) auto

lemma std_find_hit: "c \<in> set xs \<Longrightarrow> xs ! std_find xs c = c"
  by (induction xs) auto

lemma std_find_first: "i < std_find xs c \<Longrightarrow> xs ! i \<noteq> c"
proof (induction xs arbitrary: i)
  case Nil
  then show ?case by simp
next
  case (Cons x xs)
  then show ?case by (cases i) (auto split: if_splits)
qed

lemma last_slash_None: "last_slash s = None \<longleftrightarrow> CHR ''/'' \<notin> set s"
proof -
  have "std_find (rev s) CHR ''/'' = length s \<longleftrightarrow> CHR ''/'' \<notin> set s"
    using std_find_less_iff [of "rev s" "CHR ''/''"] std_find_le [of "rev s" "CHR ''/''"]
    by auto
  then show ?thesis by (simp add: last_slash_def Let_def)
qed

lemma last_slash_Some:
  assumes "last_slash s = Some ls"
  shows "ls < length s" and "s ! ls = CHR ''/''"
    and "\<And>j. ls < j \<Longrightarrow> j < length s \<Longrightarrow> s ! j \<noteq> CHR ''/''"
proof -
  let ?k = "std_find (rev s) CHR ''/''"
  from assms have k: "?k \<noteq> length s" and ls: "ls = length s - ?k - 1"
    by (auto simp: last_slash_def Let_def split: if_splits)
  from k std_find_le [of "rev s" "CHR ''/''"] have klt: "?k < length s" by simp
  then show "ls < length s" using ls by simp
  from klt have "CHR ''/'' \<in> set (rev s)"
    using std_find_less_iff [of "rev s" "CHR ''/''"] by simp
  then have "rev s ! ?k = CHR ''/''" by (rule std_find_hit)
  then show "s ! ls = CHR ''/''" using klt ls by (simp add: rev_nth)
  fix j assume j: "ls < j" "j < length s"
  then have "length s - 1 - j < ?k" using ls klt by linarith
  then have "rev s ! (length s - 1 - j) \<noteq> CHR ''/''" by (rule std_find_first)
  moreover have "rev s ! (length s - 1 - j) = s ! j"
    using j by (simp add: rev_nth)
  ultimately show "s ! j \<noteq> CHR ''/''" by simp
qed

lemma length_std_replace: "hi \<le> length s \<Longrightarrow> lo \<le> hi \<Longrightarrow> length (std_replace s lo hi a b) = length s"
  by (simp add: std_replace_def)

lemma nth_std_replace:
  assumes "lo \<le> hi" "hi \<le> length s" "i < length s"
  shows "std_replace s lo hi a b ! i =
           (if lo \<le> i \<and> i < hi \<and> s ! i = a then b else s ! i)"
proof -
  consider "i < lo" | "lo \<le> i" "i < hi" | "hi \<le> i" by linarith
  then show ?thesis
  proof cases
    case 1
    then show ?thesis using assms by (simp add: std_replace_def nth_append)
  next
    case 2
    then have "i - lo < hi - lo" by linarith
    with 2 show ?thesis using assms by (simp add: std_replace_def nth_append)
  next
    case 3
    then have "\<not> i < lo" "\<not> i - lo < hi - lo" "i - lo - (hi - lo) = i - hi"
      using assms by linarith+
    with 3 show ?thesis using assms by (simp add: std_replace_def nth_append)
  qed
qed

lemma resolve_entity_path_fallback:
  assumes "tab topic = None" "CHR ''/'' \<in> set topic"
  shows "\<exists>r. resolve_entity_path tab topic = Some (''/topics'' @ r) \<and>
             length r = length topic \<and>
             (\<forall>i<length topic. r ! i =
                (if 0 < i \<and> topic ! i = CHR ''/'' \<and>
                    (\<exists>j. i < j \<and> j < length topic \<and> topic ! j = CHR ''/'')
                 then CHR ''-'' else topic ! i))"
proof -
  from assms(2) obtain ls where ls: "last_slash topic = Some ls"
    using last_slash_None [of topic] by (cases "last_slash topic") auto
  note p = last_slash_Some [OF ls]
  let ?r = "if ls \<noteq> 0 then std_replace topic 1 ls CHR ''/'' CHR ''-'' else topic"
  have res: "resolve_entity_path tab topic = Some (''/topics'' @ ?r)"
    using assms(1) ls by (simp add: resolve_entity_path_def)
  have len: "length ?r = length topic"
    using p(1) by (simp add: length_std_replace)
  have later: "(\<exists>j. i < j \<and> j < length topic \<and> topic ! j = CHR ''/'') \<longleftrightarrow> i < ls"
    if "topic ! i = CHR ''/''" for i
  proof
    assume "\<exists>j. i < j \<and> j < length topic \<and> topic ! j = CHR ''/''"
    then obtain j where j: "i < j" "j < length topic" "topic ! j = CHR ''/''" by blast
    then have "\<not> ls < j" using p(3) by blast
    then show "i < ls" using j(1) by simp
  next
    assume "i < ls"
    then show "\<exists>j. i < j \<and> j < length topic \<and> topic ! j = CHR ''/''"
      using p(1,2) by blast
  qed
  have nth: "?r ! i =
      (if 0 < i \<and> topic ! i = CHR ''/'' \<and>
          (\<exists>j. i < j \<and> j < length topic \<and> topic ! j = CHR ''/'')
       then CHR ''-'' else topic ! i)" if i: "i < length topic" for i
  proof (cases "ls = 0")
    case True
    then show ?thesis using later [of i] by auto
  next
    case False
    then have "?r ! i =
        (if 1 \<le> i \<and> i < ls \<and> topic ! i = CHR ''/'' then CHR ''-'' else topic ! i)"
      using p(1) i by (simp add: nth_std_replace)
    then show ?thesis using later [of i] by auto
  qed
  show ?thesis using res len nth by blast
qed

text \<open>
  Where the topic is not in the table, the resolver has a result exactly for the names
  that contain a \<open>/\<close>.
\<close>

lemma resolve_entity_path_without_slash:
  "tab topic = None \<Longrightarrow> CHR ''/'' \<notin> set topic \<Longrightarrow> resolve_entity_path tab topic = None"
  using last_slash_None [of topic] by (simp add: resolve_entity_path_def)

section \<open>Facts about the timestamp normalizer\<close>

lemma normalize_timestamp_initialized:
  "time_offset_initialized n \<Longrightarrow> normalize_timestamp n st = (st - time_offset n, n)"
  by (simp add: normalize_timestamp_def)

lemma normalize_all_initialized:
  "time_offset_initialized n \<Longrightarrow>
   normalize_all n sts = (map (\<lambda>st. st - time_offset n) sts, n)"
  by (induction sts) (simp_all add: normalize_timestamp_initialized)

section \<open>Facts about the frame tree\<close>








lemma foldl_assign_unchanged:
  "topic_to_entity_path (foldl assign n es) = topic_to_entity_path n"
  by (induction es arbitrary: n) (auto simp: assign_def)




lemma chain_entity_path_snoc:
  "chain_entity_path pp (ch @ [f]) = chain_entity_path pp ch @ ''/'' @ f"
  by (simp add: chain_entity_path_def)

lemma chain_parent_snoc:
  "chain_parent pf (ch @ [f]) = (if ch = [] then pf else last ch)"
  by (simp add: chain_parent_def)


section \<open>Facts about the transcoders\<close>

lemma log_tf_transforms_result:
  "\<exists>r'. log_tf_transforms r w m trs t =
           Inr (r', w @ map (\<lambda>tr. Warn_no_entity_path (child_frame_id tr))
                          (filter (\<lambda>tr. m (child_frame_id tr) = None) trs)) \<and>
        logged r' = logged r @ List.map_filter (tf_emission m t) trs"
proof (induction trs arbitrary: r w)
  case Nil
  then show ?case by (simp add: List.map_filter_simps)
next
  case (Cons tr trs)
  show ?case
  proof (cases "m (child_frame_id tr)")
    case None
    then show ?thesis
      using Cons.IH [of r "w @ [Warn_no_entity_path (child_frame_id tr)]"]
      by (simp add: List.map_filter_simps tf_emission_def)
  next
    case (Some path)
    let ?r1 = "log (set_time_seconds r t) path (transform3d (translation tr) (rotation tr))"
    have "logged ?r1 = logged r @ [(path, Some t, transform3d (translation tr) (rotation tr))]"
      by (simp add: log_def set_time_seconds_def)
    then show ?thesis
      using Cons.IH [of ?r1 w] Some
      by (simp add: List.map_filter_simps tf_emission_def map_at_def)
  qed
qed

lemma length_map_filter_tf_emission:
  "length (List.map_filter (tf_emission m t) trs) =
     length (filter (\<lambda>tr. m (child_frame_id tr) \<noteq> None) trs)"
  by (induction trs) (auto simp: List.map_filter_simps tf_emission_def split: option.splits)

lemma rfind_slash: "rfind s CHR ''/'' = last_slash s"
  by (simp add: rfind_def last_slash_def)

lemma parent_entity_path_split:
  assumes "CHR ''/'' \<in> set p"
  shows "\<exists>seg. p = parent_entity_path p @ ''/'' @ seg \<and> CHR ''/'' \<notin> set seg"
proof -
  from assms obtain ls where ls: "last_slash p = Some ls"
    using last_slash_None [of p] by (cases "last_slash p") auto
  note f = last_slash_Some [OF ls]
  have par: "parent_entity_path p = take ls p"
    by (simp add: parent_entity_path_def rfind_slash ls)
  have "drop ls p = p ! ls # drop (Suc ls) p"
    using f(1) by (simp add: Cons_nth_drop_Suc)
  then have "p = take ls p @ ''/'' @ drop (Suc ls) p"
    using f(2) by (metis append_take_drop_id append_Cons append_Nil)
  moreover have "CHR ''/'' \<notin> set (drop (Suc ls) p)"
  proof
    assume "CHR ''/'' \<in> set (drop (Suc ls) p)"
    then obtain i where i: "i < length (drop (Suc ls) p)" "drop (Suc ls) p ! i = CHR ''/''"
      by (auto simp: in_set_conv_nth)
    then have "p ! (Suc ls + i) = CHR ''/''" "Suc ls + i < length p" by auto
    with f(3) [of "Suc ls + i"] show False by simp
  qed
  ultimately show ?thesis using par by auto
qed

lemma resolved_has_slash:
  assumes "table topic = None" "resolve_entity_path table topic = Some p"
  shows "CHR ''/'' \<in> set p"
  using assms by (auto simp: resolve_entity_path_def split: option.splits)

section \<open>Facts about the subscription poll\<close>

lemma factory_sub_topic:
  assumes "subscriber_factory datatype = Some create" "create n name = Some s"
  shows "sub_topic s = name"
  using assms
  by (auto simp: subscriber_factory_def create_image_subscriber_def create_imu_subscriber_def
      create_pose_stamped_subscriber_def create_tf_message_subscriber_def
      create_odometry_subscriber_def create_camera_info_subscriber_def Let_def
      split: if_splits option.splits)

lemma factory_defined:
  assumes "subscriber_factory datatype = Some create" "CHR ''/'' \<in> set name"
  shows "\<exists>s. create n name = Some s"
proof -
  have "\<exists>p. resolve_entity_path (topic_to_entity_path n) name = Some p"
  proof (cases "topic_to_entity_path n name")
    case None
    then show ?thesis
      using resolve_entity_path_fallback [of "topic_to_entity_path n" name] assms(2) by blast
  next
    case (Some p)
    then show ?thesis by (simp add: resolve_entity_path_def)
  qed
  then show ?thesis
    using assms(1)
    by (auto simp: subscriber_factory_def create_image_subscriber_def create_imu_subscriber_def
        create_pose_stamped_subscriber_def create_tf_message_subscriber_def
        create_odometry_subscriber_def create_camera_info_subscriber_def Let_def
        split: if_splits)
qed

lemma poll_effect_skip:
  assumes "poll_effect rest n n' made"
    and "topic_to_subscriber n name \<noteq> None \<or> subscriber_factory datatype = None"
  shows "poll_effect ((name, datatype) # rest) n n' made"
  using assms unfolding poll_effect_def by auto

lemma poll_effect_bind:
  assumes pe: "poll_effect rest (n\<lparr>topic_to_subscriber := (topic_to_subscriber n)(name \<mapsto> s)\<rparr>) n' made"
    and free: "topic_to_subscriber n name = None"
    and topic: "sub_topic s = name"
  shows "poll_effect ((name, datatype) # rest) n n' (s # made)"
proof -
  let ?n1 = "n\<lparr>topic_to_subscriber := (topic_to_subscriber n)(name \<mapsto> s)\<rparr>"
  from pe have
    p1: "n' = ?n1\<lparr>topic_to_subscriber := topic_to_subscriber n'\<rparr>" and
    p2: "\<And>k v. topic_to_subscriber ?n1 k = Some v \<Longrightarrow> topic_to_subscriber n' k = Some v" and
    p3: "\<And>x. x \<in> set made \<Longrightarrow> topic_to_subscriber ?n1 (sub_topic x) = None \<and>
                      topic_to_subscriber n' (sub_topic x) = Some x" and
    p4: "distinct (map sub_topic made)" and
    p5: "dom (topic_to_subscriber n') = dom (topic_to_subscriber ?n1) \<union> sub_topic ` set made" and
    p6: "\<And>k d. (k, d) \<in> set rest \<Longrightarrow> subscriber_factory d \<noteq> None \<Longrightarrow>
           topic_to_subscriber n' k \<noteq> None"
    unfolding poll_effect_def by blast+
  have bound: "topic_to_subscriber n' name = Some s"
    using p2 [of name s] by simp
  have other: "sub_topic x \<noteq> name" if "x \<in> set made" for x
    using p3 [OF that] by (auto split: if_splits)
  have c1: "n' = n\<lparr>topic_to_subscriber := topic_to_subscriber n'\<rparr>"
    using p1 by simp
  have c2: "\<forall>k v. topic_to_subscriber n k = Some v \<longrightarrow> topic_to_subscriber n' k = Some v"
  proof (intro allI impI)
    fix k v assume kv: "topic_to_subscriber n k = Some v"
    with free have "k \<noteq> name" by auto
    with kv show "topic_to_subscriber n' k = Some v" using p2 [of k v] by simp
  qed
  have c3: "\<forall>x \<in> set (s # made). topic_to_subscriber n (sub_topic x) = None \<and>
                      topic_to_subscriber n' (sub_topic x) = Some x"
  proof
    fix x assume "x \<in> set (s # made)"
    then consider "x = s" | "x \<in> set made" by auto
    then show "topic_to_subscriber n (sub_topic x) = None \<and>
                      topic_to_subscriber n' (sub_topic x) = Some x"
    proof cases
      case 1
      then show ?thesis using free topic bound by simp
    next
      case 2
      from p3 [OF 2] other [OF 2] show ?thesis by simp
    qed
  qed
  have "sub_topic s \<notin> sub_topic ` set made"
  proof
    assume "sub_topic s \<in> sub_topic ` set made"
    then obtain x where x: "x \<in> set made" "sub_topic x = sub_topic s" by auto
    from other [OF x(1)] x(2) topic show False by simp
  qed
  then have c4: "distinct (map sub_topic (s # made))"
    using p4 by simp
  have c5: "dom (topic_to_subscriber n') =
      dom (topic_to_subscriber n) \<union> sub_topic ` set (s # made)"
    using p5 topic by auto
  have c6: "\<forall>(k, d) \<in> set ((name, datatype) # rest).
        subscriber_factory d \<noteq> None \<longrightarrow> topic_to_subscriber n' k \<noteq> None"
    using p6 bound by auto
  show ?thesis
    unfolding poll_effect_def using c1 c2 c3 c4 c5 c6 by blast
qed

lemma create_subscribers_effect:
  "create_subscribers reg n = Some (n', made) \<Longrightarrow> poll_effect reg n n' made"
proof (induction reg arbitrary: n n' made)
  case Nil
  then show ?case by (simp add: poll_effect_def)
next
  case (Cons entry rest)
  obtain name dt where entry: "entry = (name, dt)" by (cases entry)
  show ?case
  proof (cases "topic_to_subscriber n name \<noteq> None \<or> subscriber_factory dt = None")
    case True
    then have "create_subscribers rest n = Some (n', made)"
      using Cons.prems entry by (auto split: if_splits)
    then have "poll_effect rest n n' made" by (rule Cons.IH)
    then show ?thesis unfolding entry using True by (rule poll_effect_skip)
  next
    case False
    then have free: "topic_to_subscriber n name = None"
      and "subscriber_factory dt \<noteq> None" by auto
    then obtain create where create: "subscriber_factory dt = Some create" by auto
    from Cons.prems entry free create obtain s made'
      where s: "create n name = Some s"
        and rest: "create_subscribers rest
                     (n\<lparr>topic_to_subscriber := (topic_to_subscriber n)(name \<mapsto> s)\<rparr>) = Some (n', made')"
        and made: "made = s # made'"
      by (auto split: option.splits)
    from rest have "poll_effect rest
        (n\<lparr>topic_to_subscriber := (topic_to_subscriber n)(name \<mapsto> s)\<rparr>) n' made'"
      by (rule Cons.IH)
    then show ?thesis
      unfolding entry made using free factory_sub_topic [OF create s] by (rule poll_effect_bind)
  qed
qed

lemma create_subscribers_nothing_new:
  assumes "\<forall>(name, dt) \<in> set reg.
      subscriber_factory dt \<noteq> None \<longrightarrow> topic_to_subscriber n name \<noteq> None"
  shows "create_subscribers reg n = Some (n, [])"
  using assms
proof (induction reg)
  case Nil
  then show ?case by simp
next
  case (Cons entry rest)
  obtain name dt where entry: "entry = (name, dt)" by (cases entry)
  from Cons.prems have "create_subscribers rest n = Some (n, [])"
    by (intro Cons.IH) auto
  moreover from Cons.prems entry
  have "topic_to_subscriber n name \<noteq> None \<or> subscriber_factory dt = None" by auto
  ultimately show ?case unfolding entry by auto
qed

lemma create_subscribers_defined:
  assumes "\<forall>(name, dt) \<in> set reg. CHR ''/'' \<in> set name"
  shows "\<exists>result. create_subscribers reg n = Some result"
  using assms
proof (induction reg arbitrary: n)
  case Nil
  then show ?case by simp
next
  case (Cons entry rest)
  obtain name dt where entry: "entry = (name, dt)" by (cases entry)
  from Cons.prems have rest: "\<forall>(name, dt) \<in> set rest. CHR ''/'' \<in> set name" by auto
  show ?case
  proof (cases "topic_to_subscriber n name \<noteq> None \<or> subscriber_factory dt = None")
    case True
    then show ?thesis using Cons.IH [OF rest, of n] entry by auto
  next
    case False
    then obtain create where create: "subscriber_factory dt = Some create" by auto
    from Cons.prems entry have "CHR ''/'' \<in> set name" by auto
    from factory_defined [OF create this, of n] obtain s where s: "create n name = Some s" ..
    from Cons.IH [OF rest, of "n\<lparr>topic_to_subscriber := (topic_to_subscriber n)(name \<mapsto> s)\<rparr>"]
    show ?thesis using False entry create s by auto
  qed
qed

section \<open>Facts about the callbacks\<close>

lemma normalize_timestamp_members:
  "rec (snd (normalize_timestamp n st)) = rec n"
  "tf_frame_to_entity_path (snd (normalize_timestamp n st)) = tf_frame_to_entity_path n"
  "console (snd (normalize_timestamp n st)) = console n"
  by (simp_all add: normalize_timestamp_def)

text \<open>
  The other single-message callbacks stamp what they log with the normalized header time
  of the message.
\<close>

lemma odometry_callback_stamped:
  "logged (rec (odometry_callback path n msg)) =
     logged (rec n) @
       [(path, Some (fst (normalize_timestamp n (stamp (odom_header msg)))),
         transform3d (pose_position msg) (pose_orientation msg))]"
  by (simp add: odometry_callback_def normalize_timestamp_def log_def set_time_seconds_def Let_def)

lemma pose_stamped_callback_stamped:
  "logged (rec (pose_stamped_callback path n msg)) =
     logged (rec n) @
       [(path, Some (fst (normalize_timestamp n (stamp (pose_header msg)))),
         transform3d (position msg) (orientation msg)),
        (''/trajectories/'' @ path, Some (fst (normalize_timestamp n (stamp (pose_header msg)))),
         Points3D [position msg])]"
  by (simp add: pose_stamped_callback_def normalize_timestamp_def log_def set_time_seconds_def
      Let_def)

lemma image_callback_stamped:
  assumes "image_callback toCvCopy path lookup_transform n msg = Inr n'"
  shows "\<forall>e \<in> set (drop (length (logged (rec n))) (logged (rec n'))).
           fst (snd e) = Some (fst (normalize_timestamp n (stamp (image_header msg))))"
  using assms
  by (auto simp: image_callback_def normalize_timestamp_def log_image_def log_def
      set_time_seconds_def Let_def split: if_splits option.splits sum.splits)

section \<open>Claims\<close>

text \<open>
  C1. The entity path resolver is total on topic names, which are the names the master
  reports and so contain a \<open>/\<close> (they begin with one): it has a result for every such
  name. It returns the configured value, whatever its shape, for every topic in the
  override table. For every other topic it returns \<open>/topics\<close> followed by the topic in
  which the first character and everything from the last \<open>/\<close> on are kept, and every
  other \<open>/\<close> (one that is not the first character and has a later \<open>/\<close>) is a \<open>-\<close>.
  With none of them overridden, \<open>/one/two/three/four\<close> resolves to
  \<open>/topics/one-two-three/four\<close>, \<open>/single\<close> to \<open>/topics/single\<close> and \<open>/a\<close> to
  \<open>/topics/a\<close>.
\<close>

theorem resolve_entity_path_correct:
  "(CHR ''/'' \<in> set topic \<longrightarrow> (\<exists>path. resolve_entity_path tab topic = Some path)) \<and>
   (tab topic = Some p \<longrightarrow> resolve_entity_path tab topic = Some p) \<and>
   (tab topic = None \<and> CHR ''/'' \<in> set topic \<longrightarrow>
      (\<exists>r. resolve_entity_path tab topic = Some (''/topics'' @ r) \<and>
           length r = length topic \<and>
           (\<forall>i<length topic. r ! i =
              (if 0 < i \<and> topic ! i = CHR ''/'' \<and>
                  (\<exists>j. i < j \<and> j < length topic \<and> topic ! j = CHR ''/'')
               then CHR ''-'' else topic ! i)))) \<and>
   (tab ''/one/two/three/four'' = None \<longrightarrow>
      resolve_entity_path tab ''/one/two/three/four'' = Some ''/topics/one-two-three/four'') \<and>
   (tab ''/single'' = None \<longrightarrow>
      resolve_entity_path tab ''/single'' = Some ''/topics/single'') \<and>
   (tab ''/a'' = None \<longrightarrow> resolve_entity_path tab ''/a'' = Some ''/topics/a'')"
proof (intro conjI impI)
  assume slash: "CHR ''/'' \<in> set topic"
  show "\<exists>path. resolve_entity_path tab topic = Some path"
  proof (cases "tab topic")
    case None
    then show ?thesis using resolve_entity_path_fallback [of tab topic] slash by blast
  next
    case (Some q)
    then show ?thesis by (simp add: resolve_entity_path_def)
  qed
next
  assume "tab topic = Some p"
  then show "resolve_entity_path tab topic = Some p"
    by (simp add: resolve_entity_path_def)
next
  assume "tab topic = None \<and> CHR ''/'' \<in> set topic"
  then show "\<exists>r. resolve_entity_path tab topic = Some (''/topics'' @ r) \<and>
           length r = length topic \<and>
           (\<forall>i<length topic. r ! i =
              (if 0 < i \<and> topic ! i = CHR ''/'' \<and>
                  (\<exists>j. i < j \<and> j < length topic \<and> topic ! j = CHR ''/'')
               then CHR ''-'' else topic ! i))"
    using resolve_entity_path_fallback by blast
next
  assume "tab ''/one/two/three/four'' = None"
  then show "resolve_entity_path tab ''/one/two/three/four'' = Some ''/topics/one-two-three/four''"
    by (simp add: resolve_entity_path_def last_slash_def std_replace_def)
next
  assume "tab ''/single'' = None"
  then show "resolve_entity_path tab ''/single'' = Some ''/topics/single''"
    by (simp add: resolve_entity_path_def last_slash_def std_replace_def)
next
  assume "tab ''/a'' = None"
  then show "resolve_entity_path tab ''/a'' = Some ''/topics/a''"
    by (simp add: resolve_entity_path_def last_slash_def std_replace_def)
qed

theorem resolve_entity_path_correct_witness:
  "resolve_entity_path [''/imu'' \<mapsto> ''sensors''] ''/imu'' = Some ''sensors'' \<and>
   resolve_entity_path [''/imu'' \<mapsto> ''sensors''] ''/a/b/c'' = Some ''/topics/a-b/c'' \<and>
   resolve_entity_path [''/imu'' \<mapsto> ''sensors''] ''/one/two/three/four'' =
     Some ''/topics/one-two-three/four'' \<and>
   resolve_entity_path [''/imu'' \<mapsto> ''sensors''] ''/single'' = Some ''/topics/single'' \<and>
   resolve_entity_path [''/imu'' \<mapsto> ''sensors''] ''/a'' = Some ''/topics/a''"
  using resolve_entity_path_correct
      [where tab = "[''/imu'' \<mapsto> ''sensors'']" and topic = "''/imu''" and p = "''sensors''"]
    resolve_entity_path_correct
      [where tab = "[''/imu'' \<mapsto> ''sensors'']" and topic = "''/a/b/c''" and p = "''x''"]
  by (simp add: resolve_entity_path_def last_slash_def std_replace_def)

text \<open>
  C2. The first call of the timestamp normalizer, with raw time \<open>T0\<close>, captures \<open>T0\<close> as the
  offset of the node and returns 0. Every call after it with raw time \<open>T1\<close> returns
  \<open>T1 - T0\<close>, a negative number when \<open>T1 < T0\<close>, and leaves the offset as it is, however
  many calls follow. (Calls are taken one after the other.)
\<close>

theorem normalize_timestamp_correct:
  assumes "\<not> time_offset_initialized n"
  shows "\<exists>n1. normalize_timestamp n T0 = (0, n1) \<and>
              time_offset n1 = T0 \<and> time_offset_initialized n1 \<and>
              normalize_timestamp n1 T1 = (T1 - T0, n1) \<and>
              (T1 < T0 \<longrightarrow> fst (normalize_timestamp n1 T1) < 0) \<and>
              normalize_all n1 sts = (map (\<lambda>st. st - T0) sts, n1) \<and>
              normalize_all n (T0 # sts) = (0 # map (\<lambda>st. st - T0) sts, n1)"
proof -
  define n1 where "n1 = n\<lparr>time_offset := T0, time_offset_initialized := True\<rparr>"
  have first: "normalize_timestamp n T0 = (0, n1)"
    using assms by (simp add: normalize_timestamp_def n1_def)
  have init: "time_offset_initialized n1" and off: "time_offset n1 = T0"
    by (simp_all add: n1_def)
  have later: "normalize_timestamp n1 T1 = (T1 - T0, n1)"
    using normalize_timestamp_initialized [OF init, of T1] off by simp
  have all: "normalize_all n1 sts = (map (\<lambda>st. st - T0) sts, n1)"
    using normalize_all_initialized [OF init, of sts] off by simp
  have "normalize_all n (T0 # sts) = (0 # map (\<lambda>st. st - T0) sts, n1)"
    using first all by simp
  with first init off later all show ?thesis by auto
qed

theorem normalize_timestamp_correct_witness:
  "\<not> time_offset_initialized (members_at_construction 0 (\<lambda>target source time timeout. None)) \<and>
   (\<exists>n1. normalize_timestamp (members_at_construction 0 (\<lambda>target source time timeout. None)) 100 = (0, n1) \<and>
         time_offset n1 = 100 \<and> time_offset_initialized n1 \<and>
         normalize_timestamp n1 40 = (- 60, n1) \<and>
         normalize_all n1 [130, 40] = ([30, - 60], n1))"
  using normalize_timestamp_correct
    [of "members_at_construction 0 (\<lambda>target source time timeout. None)" 100 40 "[130, 40]"]
  by (auto simp: members_at_construction_def)




text \<open>
  C4. \<^verbatim>\<open>log_tf_message\<close> always returns, without an exception: the guarded
  \<^verbatim>\<open>at\<close> never throws. Every entry whose child frame is in the frame-to-entity-path
  table gives exactly one \<open>Transform3D\<close> at the path the table holds for it, stamped with
  the timestamp given, in the order of the list; every other entry gives one warning and
  nothing else. A list of one unmapped entry followed by one mapped entry gives exactly one
  emission, for the mapped entry.
\<close>

theorem log_tf_message_correct:
  "\<exists>r' w. log_tf_message r m msg t = Inr (r', w) \<and>
     logged r' = logged r @ List.map_filter (tf_emission m t) (transforms msg) \<and>
     length (logged r') =
       length (logged r) + length (filter (\<lambda>tr. m (child_frame_id tr) \<noteq> None) (transforms msg)) \<and>
     w = map (\<lambda>tr. Warn_no_entity_path (child_frame_id tr))
           (filter (\<lambda>tr. m (child_frame_id tr) = None) (transforms msg)) \<and>
     (transforms msg = [a, b] \<and> m (child_frame_id a) = None \<and> m (child_frame_id b) = Some p \<longrightarrow>
        logged r' = logged r @ [(p, Some t, transform3d (translation b) (rotation b))] \<and>
        w = [Warn_no_entity_path (child_frame_id a)])"
proof -
  define w where "w = map (\<lambda>tr. Warn_no_entity_path (child_frame_id tr))
                        (filter (\<lambda>tr. m (child_frame_id tr) = None) (transforms msg))"
  from log_tf_transforms_result [of r "[]" m "transforms msg" t]
  obtain r' where r': "log_tf_message r m msg t = Inr (r', w)"
    and l: "logged r' = logged r @ List.map_filter (tf_emission m t) (transforms msg)"
    by (auto simp: log_tf_message_def w_def)
  show ?thesis
  proof (intro exI conjI impI)
    show "log_tf_message r m msg t = Inr (r', w)" by (rule r')
    show "logged r' = logged r @ List.map_filter (tf_emission m t) (transforms msg)" by (rule l)
    show "length (logged r') =
       length (logged r) + length (filter (\<lambda>tr. m (child_frame_id tr) \<noteq> None) (transforms msg))"
      using l by (simp add: length_map_filter_tf_emission)
    show "w = map (\<lambda>tr. Warn_no_entity_path (child_frame_id tr))
           (filter (\<lambda>tr. m (child_frame_id tr) = None) (transforms msg))" by (rule w_def)
  next
    assume "transforms msg = [a, b] \<and> m (child_frame_id a) = None \<and> m (child_frame_id b) = Some p"
    then show "logged r' = logged r @ [(p, Some t, transform3d (translation b) (rotation b))]"
      using l by (simp add: List.map_filter_simps tf_emission_def)
  next
    assume "transforms msg = [a, b] \<and> m (child_frame_id a) = None \<and> m (child_frame_id b) = Some p"
    then show "w = [Warn_no_entity_path (child_frame_id a)]"
      by (simp add: w_def)
  qed
qed

theorem log_tf_message_correct_witness:
  "\<exists>r' w. log_tf_message \<lparr>timestamp = None, logged = []\<rparr> [''base_link'' \<mapsto> ''/odom/base_link'']
       \<lparr>transforms =
          [\<lparr>tf_header = \<lparr>stamp = 12, frame_id = ''map''\<rparr>, child_frame_id = ''lidar'',
            translation = Vector3 1 2 3, rotation = Quaternion 0 0 0 1\<rparr>,
           \<lparr>tf_header = \<lparr>stamp = 12, frame_id = ''odom''\<rparr>, child_frame_id = ''base_link'',
            translation = Vector3 4 5 6, rotation = Quaternion 0 0 1 0\<rparr>]\<rparr> 2 = Inr (r', w) \<and>
     logged r' = [(''/odom/base_link'', Some 2, Transform3D (Vector3 4 5 6) (0, 0, 0, 1))] \<and>
     w = [Warn_no_entity_path ''lidar'']"
  using log_tf_message_correct
    [of "\<lparr>timestamp = None, logged = []\<rparr>" "[''base_link'' \<mapsto> ''/odom/base_link'']"
        "\<lparr>transforms =
          [\<lparr>tf_header = \<lparr>stamp = 12, frame_id = ''map''\<rparr>, child_frame_id = ''lidar'',
            translation = Vector3 1 2 3, rotation = Quaternion 0 0 0 1\<rparr>,
           \<lparr>tf_header = \<lparr>stamp = 12, frame_id = ''odom''\<rparr>, child_frame_id = ''base_link'',
            translation = Vector3 4 5 6, rotation = Quaternion 0 0 1 0\<rparr>]\<rparr>" 2
        "\<lparr>tf_header = \<lparr>stamp = 12, frame_id = ''map''\<rparr>, child_frame_id = ''lidar'',
            translation = Vector3 1 2 3, rotation = Quaternion 0 0 0 1\<rparr>"
        "\<lparr>tf_header = \<lparr>stamp = 12, frame_id = ''odom''\<rparr>, child_frame_id = ''base_link'',
            translation = Vector3 4 5 6, rotation = Quaternion 0 0 1 0\<rparr>"
        "''/odom/base_link''"]
  by auto

text \<open>
  C5. \<^verbatim>\<open>log_image\<close> chooses what it emits by the declared encoding alone. Where the
  conversion of the pixels succeeds, a \<^verbatim>\<open>16UC1\<close> image is emitted as a depth image of
  16-bit values with \<^verbatim>\<open>with_meter(1000)\<close>, that is with the factor 1/1000 from
  millimetres to metres, a \<^verbatim>\<open>32FC1\<close> image as a depth image of 32-bit floats with the
  factor 1, and an image of any other encoding as an 8-bit image converted to \<^verbatim>\<open>rgb8\<close>.
  Whatever is emitted is a depth image exactly for the two depth encodings.
\<close>

theorem log_image_correct:
  "(encoding msg = ''16UC1'' \<and> toCvCopy msg None = Inr img \<longrightarrow>
      (\<exists>a. log_image toCvCopy r path msg t =
             Inr (r\<lparr>timestamp := Some t, logged := logged r @ [(path, Some t, a)]\<rparr>) \<and>
           a = DepthImage (rows img, cols img) (U16 img) 1000 \<and>
           depth_scale a = Some (1 / 1000))) \<and>
   (encoding msg = ''32FC1'' \<and> toCvCopy msg None = Inr img \<longrightarrow>
      (\<exists>a. log_image toCvCopy r path msg t =
             Inr (r\<lparr>timestamp := Some t, logged := logged r @ [(path, Some t, a)]\<rparr>) \<and>
           a = DepthImage (rows img, cols img) (F32 img) 1 \<and>
           depth_scale a = Some 1)) \<and>
   (encoding msg \<noteq> ''16UC1'' \<and> encoding msg \<noteq> ''32FC1'' \<and>
    toCvCopy msg (Some ''rgb8'') = Inr img \<longrightarrow>
      log_image toCvCopy r path msg t =
        Inr (r\<lparr>timestamp := Some t, logged := logged r @ [(path, Some t, Image (U8 img))]\<rparr>)) \<and>
   (\<forall>r'. log_image toCvCopy r path msg t = Inr r' \<longrightarrow>
      (\<exists>a. logged r' = logged r @ [(path, Some t, a)] \<and>
           (is_depth_image a \<longleftrightarrow> encoding msg = ''16UC1'' \<or> encoding msg = ''32FC1'')))"
  by (auto simp: log_image_def log_def set_time_seconds_def Let_def split: sum.splits)

theorem log_image_correct_witness:
  "log_image (\<lambda>m enc. Inr \<lparr>rows = height m, cols = width m,
                            mat_encoding = (case enc of None \<Rightarrow> encoding m | Some e \<Rightarrow> e),
                            pixels = data m\<rparr>)
     \<lparr>timestamp = None, logged = []\<rparr> ''/topics/camera/depth''
     \<lparr>image_header = \<lparr>stamp = 3, frame_id = ''camera''\<rparr>, height = 1, width = 2,
      encoding = ''16UC1'', data = [1, 0, 2, 0]\<rparr> 3 =
   Inr \<lparr>timestamp = Some 3,
        logged = [(''/topics/camera/depth'', Some 3,
                   DepthImage (1, 2)
                     (U16 \<lparr>rows = 1, cols = 2, mat_encoding = ''16UC1'', pixels = [1, 0, 2, 0]\<rparr>)
                     1000)]\<rparr> \<and>
   log_image (\<lambda>m enc. Inr \<lparr>rows = height m, cols = width m,
                            mat_encoding = (case enc of None \<Rightarrow> encoding m | Some e \<Rightarrow> e),
                            pixels = data m\<rparr>)
     \<lparr>timestamp = None, logged = []\<rparr> ''/topics/camera/depth''
     \<lparr>image_header = \<lparr>stamp = 3, frame_id = ''camera''\<rparr>, height = 1, width = 1,
      encoding = ''32FC1'', data = [0, 0, 128, 63]\<rparr> 3 =
   Inr \<lparr>timestamp = Some 3,
        logged = [(''/topics/camera/depth'', Some 3,
                   DepthImage (1, 1)
                     (F32 \<lparr>rows = 1, cols = 1, mat_encoding = ''32FC1'', pixels = [0, 0, 128, 63]\<rparr>)
                     1)]\<rparr> \<and>
   log_image (\<lambda>m enc. Inr \<lparr>rows = height m, cols = width m,
                            mat_encoding = (case enc of None \<Rightarrow> encoding m | Some e \<Rightarrow> e),
                            pixels = data m\<rparr>)
     \<lparr>timestamp = None, logged = []\<rparr> ''/topics/camera/image_raw''
     \<lparr>image_header = \<lparr>stamp = 3, frame_id = ''camera''\<rparr>, height = 1, width = 1,
      encoding = ''bgr8'', data = [1, 2, 3]\<rparr> 3 =
   Inr \<lparr>timestamp = Some 3,
        logged = [(''/topics/camera/image_raw'', Some 3,
                   Image (U8 \<lparr>rows = 1, cols = 1, mat_encoding = ''rgb8'', pixels = [1, 2, 3]\<rparr>))]\<rparr>"
  using log_image_correct
    [of "\<lparr>image_header = \<lparr>stamp = 3, frame_id = ''camera''\<rparr>, height = 1, width = 2,
          encoding = ''16UC1'', data = [1, 0, 2, 0]\<rparr>"
        "\<lambda>m enc. Inr \<lparr>rows = height m, cols = width m,
                       mat_encoding = (case enc of None \<Rightarrow> encoding m | Some e \<Rightarrow> e),
                       pixels = data m\<rparr>"
        "\<lparr>rows = 1, cols = 2, mat_encoding = ''16UC1'', pixels = [1, 0, 2, 0]\<rparr>"
        "\<lparr>timestamp = None, logged = []\<rparr>" "''/topics/camera/depth''" 3]
  by (simp add: log_image_def log_def set_time_seconds_def)

text \<open>
  C6. For a camera-intrinsics topic that is not in the override table, the entity path
  of the subscription is the parent of the path the resolver gives for the topic: that
  path cut in front of its last \<open>/\<close>. With neither topic overridden, the image topic
  \<open>/camera/image_raw\<close> is bound to \<open>/topics/camera/image_raw\<close> and the intrinsics topic
  \<open>/camera/camera_info\<close> to \<open>/topics/camera\<close>, the parent of the image path.
\<close>

theorem create_camera_info_subscriber_correct:
  "(topic_to_entity_path n topic = None \<and>
    resolve_entity_path (topic_to_entity_path n) topic = Some resolved \<longrightarrow>
      create_camera_info_subscriber n topic =
        Some \<lparr>sub_topic = topic, queue_size = 100,
              sub_callback = Camera_info_callback (parent_entity_path resolved)\<rparr> \<and>
      (\<exists>seg. resolved = parent_entity_path resolved @ ''/'' @ seg \<and> CHR ''/'' \<notin> set seg)) \<and>
   (topic_to_entity_path n topic = None \<and> CHR ''/'' \<in> set topic \<longrightarrow>
      (\<exists>resolved. resolve_entity_path (topic_to_entity_path n) topic = Some resolved)) \<and>
   (topic_to_entity_path n ''/camera/image_raw'' = None \<and>
    topic_to_entity_path n ''/camera/camera_info'' = None \<longrightarrow>
      create_image_subscriber n ''/camera/image_raw'' =
        Some \<lparr>sub_topic = ''/camera/image_raw'', queue_size = 100,
              sub_callback = Image_callback ''/topics/camera/image_raw'' True\<rparr> \<and>
      create_camera_info_subscriber n ''/camera/camera_info'' =
        Some \<lparr>sub_topic = ''/camera/camera_info'', queue_size = 100,
              sub_callback = Camera_info_callback ''/topics/camera''\<rparr> \<and>
      parent_entity_path ''/topics/camera/image_raw'' = ''/topics/camera'')"
proof (intro conjI impI)
  assume a: "topic_to_entity_path n topic = None \<and>
    resolve_entity_path (topic_to_entity_path n) topic = Some resolved"
  then show "create_camera_info_subscriber n topic =
        Some \<lparr>sub_topic = topic, queue_size = 100,
              sub_callback = Camera_info_callback (parent_entity_path resolved)\<rparr>"
    by (simp add: create_camera_info_subscriber_def)
  from a have "CHR ''/'' \<in> set resolved" by (auto intro: resolved_has_slash)
  then show "\<exists>seg. resolved = parent_entity_path resolved @ ''/'' @ seg \<and> CHR ''/'' \<notin> set seg"
    by (rule parent_entity_path_split)
next
  assume "topic_to_entity_path n topic = None \<and> CHR ''/'' \<in> set topic"
  then show "\<exists>resolved. resolve_entity_path (topic_to_entity_path n) topic = Some resolved"
    using resolve_entity_path_fallback [of "topic_to_entity_path n" topic] by blast
next
  assume a: "topic_to_entity_path n ''/camera/image_raw'' = None \<and>
    topic_to_entity_path n ''/camera/camera_info'' = None"
  then show "create_image_subscriber n ''/camera/image_raw'' =
        Some \<lparr>sub_topic = ''/camera/image_raw'', queue_size = 100,
              sub_callback = Image_callback ''/topics/camera/image_raw'' True\<rparr>"
    by (simp add: create_image_subscriber_def resolve_entity_path_def last_slash_def
        std_replace_def)
  from a show "create_camera_info_subscriber n ''/camera/camera_info'' =
        Some \<lparr>sub_topic = ''/camera/camera_info'', queue_size = 100,
              sub_callback = Camera_info_callback ''/topics/camera''\<rparr>"
    by (simp add: create_camera_info_subscriber_def resolve_entity_path_def last_slash_def
        std_replace_def parent_entity_path_def rfind_def)
  show "parent_entity_path ''/topics/camera/image_raw'' = ''/topics/camera''"
    by (simp add: parent_entity_path_def rfind_def)
qed

theorem create_camera_info_subscriber_correct_witness:
  "topic_to_entity_path (members_at_construction 0 (\<lambda>target source time timeout. None))
     ''/camera/camera_info'' = None \<and>
   resolve_entity_path
     (topic_to_entity_path (members_at_construction 0 (\<lambda>target source time timeout. None)))
     ''/camera/camera_info'' = Some ''/topics/camera/camera_info'' \<and>
   create_camera_info_subscriber (members_at_construction 0 (\<lambda>target source time timeout. None))
     ''/camera/camera_info'' =
     Some \<lparr>sub_topic = ''/camera/camera_info'', queue_size = 100,
           sub_callback = Camera_info_callback ''/topics/camera''\<rparr> \<and>
   create_image_subscriber (members_at_construction 0 (\<lambda>target source time timeout. None))
     ''/camera/image_raw'' =
     Some \<lparr>sub_topic = ''/camera/image_raw'', queue_size = 100,
           sub_callback = Image_callback ''/topics/camera/image_raw'' True\<rparr>"
  using create_camera_info_subscriber_correct
    [of "members_at_construction 0 (\<lambda>target source time timeout. None)"
        "''/camera/camera_info''" "''/topics/camera/camera_info''"]
  by (simp add: members_at_construction_def resolve_entity_path_def last_slash_def
      std_replace_def parent_entity_path_def rfind_def)

text \<open>
  C7. A poll of the topic registry leaves the binding of every topic that is already bound
  as it is, so no binding is ever removed or replaced; it subscribes at most once to a
  topic, and only to topics that were not bound before; and a second poll over the same
  registry subscribes to nothing and leaves the bindings as the first poll made them. The
  poll completes whenever every topic name of the registry contains a \<open>/\<close>.
\<close>

theorem create_subscribers_idempotent:
  "(create_subscribers reg n = Some (n', made) \<longrightarrow>
      (\<forall>name s. topic_to_subscriber n name = Some s \<longrightarrow> topic_to_subscriber n' name = Some s) \<and>
      (\<forall>s \<in> set made. topic_to_subscriber n (sub_topic s) = None \<and>
                       topic_to_subscriber n' (sub_topic s) = Some s) \<and>
      distinct (map sub_topic made) \<and>
      dom (topic_to_subscriber n') = dom (topic_to_subscriber n) \<union> sub_topic ` set made \<and>
      create_subscribers reg n' = Some (n', [])) \<and>
   ((\<forall>(name, datatype) \<in> set reg. CHR ''/'' \<in> set name) \<longrightarrow>
      (\<exists>n' made. create_subscribers reg n = Some (n', made)))"
proof (intro conjI impI)
  assume "\<forall>(name, datatype) \<in> set reg. CHR ''/'' \<in> set name"
  then show "\<exists>n' made. create_subscribers reg n = Some (n', made)"
    using create_subscribers_defined [of reg n] by auto
next
  assume "create_subscribers reg n = Some (n', made)"
  then have pe: "poll_effect reg n n' made" by (rule create_subscribers_effect)
  then show "\<forall>name s. topic_to_subscriber n name = Some s \<longrightarrow> topic_to_subscriber n' name = Some s"
    and "\<forall>s \<in> set made. topic_to_subscriber n (sub_topic s) = None \<and>
                       topic_to_subscriber n' (sub_topic s) = Some s"
    and "distinct (map sub_topic made)"
    and "dom (topic_to_subscriber n') = dom (topic_to_subscriber n) \<union> sub_topic ` set made"
    unfolding poll_effect_def by blast+
  from pe have "\<forall>(name, datatype) \<in> set reg.
      subscriber_factory datatype \<noteq> None \<longrightarrow> topic_to_subscriber n' name \<noteq> None"
    unfolding poll_effect_def by blast
  then show "create_subscribers reg n' = Some (n', [])"
    by (rule create_subscribers_nothing_new)
qed

theorem create_subscribers_idempotent_witness:
  "\<exists>n'. create_subscribers
           [(''/imu'', ''sensor_msgs/Imu''), (''/rosout'', ''rosgraph_msgs/Log''),
            (''/imu'', ''sensor_msgs/Imu'')]
           (members_at_construction 0 (\<lambda>target source time timeout. None)) =
         Some (n', [\<lparr>sub_topic = ''/imu'', queue_size = 100,
                     sub_callback = Imu_callback ''/topics/imu''\<rparr>]) \<and>
        create_subscribers
           [(''/imu'', ''sensor_msgs/Imu''), (''/rosout'', ''rosgraph_msgs/Log''),
            (''/imu'', ''sensor_msgs/Imu'')] n' = Some (n', [])"
proof -
  let ?reg = "[(''/imu'', ''sensor_msgs/Imu''), (''/rosout'', ''rosgraph_msgs/Log''),
               (''/imu'', ''sensor_msgs/Imu'')]"
  let ?n = "members_at_construction 0 (\<lambda>target source time timeout. None)"
  let ?s = "\<lparr>sub_topic = ''/imu'', queue_size = 100, sub_callback = Imu_callback ''/topics/imu''\<rparr>"
  let ?n' = "?n\<lparr>topic_to_subscriber := (topic_to_subscriber ?n)(''/imu'' \<mapsto> ?s)\<rparr>"
  have first: "create_subscribers ?reg ?n = Some (?n', [?s])"
    by (simp add: subscriber_factory_def create_imu_subscriber_def resolve_entity_path_def
        last_slash_def members_at_construction_def)
  with create_subscribers_idempotent [of ?reg ?n ?n' "[?s]"]
  have "create_subscribers ?reg ?n' = Some (?n', [])" by blast
  with first show ?thesis by blast
qed

text \<open>
  C8. The claim says that every transcoder stamps its emission with the normalized
  timestamp of the message. The callbacks of the inertial, pose, odometry and
  camera-intrinsics topics do normalize the header time of the message once, and
  \<^verbatim>\<open>log_imu\<close> sets that time on the stream before it logs; \<^verbatim>\<open>log_camera_info\<close> takes
  the normalized timestamp and never sets it, so the pinhole is logged at whatever time the
  stream holds from before: none for the first message of a node, and the time of the
  inertial sample with header time 5 for intrinsics with header time 7 that follow it,
  whose normalized timestamp is 2.
\<close>

theorem camera_info_callback_timestamp:
  "logged (rec (imu_callback path n
      \<lparr>imu_header = \<lparr>stamp = st, frame_id = f\<rparr>, linear_acceleration = Vector3 ax ay az\<rparr>)) =
     logged (rec n) @
       [(path @ ''/x'', Some (fst (normalize_timestamp n st)), Scalar ax),
        (path @ ''/y'', Some (fst (normalize_timestamp n st)), Scalar ay),
        (path @ ''/z'', Some (fst (normalize_timestamp n st)), Scalar az)] \<and>
   logged (rec (camera_info_callback path n
      \<lparr>camera_info_header = \<lparr>stamp = st, frame_id = f\<rparr>, ci_height = h, ci_width = w,
       K = Array9 k0 k1 k2 k3 k4 k5 k6 k7 k8\<rparr>)) =
     logged (rec n) @
       [(path, timestamp (rec n), Pinhole [k0, k3, k6, k1, k4, k7, k2, k5, k8] (w, h))] \<and>
   logged (rec (camera_info_callback ''/topics/camera''
      (members_at_construction 0 (\<lambda>target source time timeout. None))
      \<lparr>camera_info_header = \<lparr>stamp = 7, frame_id = ''camera''\<rparr>, ci_height = 480, ci_width = 640,
       K = Array9 500 0 320 0 500 240 0 0 1\<rparr>)) =
     [(''/topics/camera'', None, Pinhole [500, 0, 0, 0, 500, 0, 320, 240, 1] (640, 480))] \<and>
   fst (normalize_timestamp
      (imu_callback ''/topics/imu'' (members_at_construction 0 (\<lambda>target source time timeout. None))
         \<lparr>imu_header = \<lparr>stamp = 5, frame_id = ''imu''\<rparr>, linear_acceleration = Vector3 0 0 1\<rparr>) 7) = 2 \<and>
   last (logged (rec (camera_info_callback ''/topics/camera''
      (imu_callback ''/topics/imu'' (members_at_construction 0 (\<lambda>target source time timeout. None))
         \<lparr>imu_header = \<lparr>stamp = 5, frame_id = ''imu''\<rparr>, linear_acceleration = Vector3 0 0 1\<rparr>)
      \<lparr>camera_info_header = \<lparr>stamp = 7, frame_id = ''camera''\<rparr>, ci_height = 480, ci_width = 640,
       K = Array9 500 0 320 0 500 240 0 0 1\<rparr>))) =
     (''/topics/camera'', Some 0, Pinhole [500, 0, 0, 0, 500, 0, 320, 240, 1] (640, 480))"
  by (simp add: imu_callback_def camera_info_callback_def normalize_timestamp_def
      members_at_construction_def log_def set_time_seconds_def Let_def)

text \<open>
  C9. The claim says that no sampling timer is created when \<^verbatim>\<open>tf.update_rate\<close> is absent.
  The code assigns \<^verbatim>\<open>_tf_fixed_rate\<close> only when the key is present and nowhere else, so
  without the key \<^verbatim>\<open>spin\<close> compares the indeterminate value of the member with zero: for
  a configuration with a \<^verbatim>\<open>tf\<close> block and no \<^verbatim>\<open>update_rate\<close>, a member that happens to
  hold 50 gives a sampling timer with period 1/50, and only a member that happens to hold 0
  gives none.
\<close>

theorem spin_without_update_rate:
  "(\<exists>n. RerunLoggerNode 50 buffer
          \<lparr>cfg_topic_to_entity_path = None,
           tf = Some \<lparr>update_rate = None, tree = None\<rparr>\<rparr> = Inr n \<and>
        spin n = [(0.1, Create_subscribers), (1 / 50, Update_tf)]) \<and>
   (\<exists>n. RerunLoggerNode 0 buffer
          \<lparr>cfg_topic_to_entity_path = None,
           tf = Some \<lparr>update_rate = None, tree = None\<rparr>\<rparr> = Inr n \<and>
        spin n = [(0.1, Create_subscribers)])"
  by (simp add: RerunLoggerNode_def read_yaml_config_def members_at_construction_def spin_def)

text \<open>
  C10. The callback of a bulk transform-list subscription reads
  \<^verbatim>\<open>msg->transforms[0]\<close> before anything else. On a message with an empty list that read
  is out of bounds; on any other message the callback completes, and everything it logs is
  stamped with the normalized header time of the first entry.
\<close>

theorem tf_message_callback_first_entry:
  "(transforms msg = [] \<longrightarrow> tf_message_callback n msg = Inl Index_out_of_bounds) \<and>
   (transforms msg \<noteq> [] \<longrightarrow>
      (\<exists>n'. tf_message_callback n msg = Inr n' \<and>
           logged (rec n') = logged (rec n) @
             List.map_filter
               (tf_emission (tf_frame_to_entity_path n)
                  (fst (normalize_timestamp n (stamp (tf_header (hd (transforms msg)))))))
               (transforms msg)))"
proof (intro conjI impI)
  assume "transforms msg = []"
  then show "tf_message_callback n msg = Inl Index_out_of_bounds"
    by (simp add: tf_message_callback_def)
next
  assume "transforms msg \<noteq> []"
  then obtain tr trs where trs: "transforms msg = tr # trs" by (cases "transforms msg") auto
  obtain t n1 where nt: "normalize_timestamp n (stamp (tf_header tr)) = (t, n1)"
    by (cases "normalize_timestamp n (stamp (tf_header tr))")
  have n1: "rec n1 = rec n" "tf_frame_to_entity_path n1 = tf_frame_to_entity_path n"
    using normalize_timestamp_members [of n "stamp (tf_header tr)"] nt by simp_all
  from log_tf_transforms_result [of "rec n" "[]" "tf_frame_to_entity_path n" "transforms msg" t]
  obtain r' w where r': "log_tf_message (rec n) (tf_frame_to_entity_path n) msg t = Inr (r', w)"
    and l: "logged r' = logged (rec n) @
              List.map_filter (tf_emission (tf_frame_to_entity_path n) t) (transforms msg)"
    by (auto simp: log_tf_message_def)
  have "tf_message_callback n msg = Inr (n1\<lparr>rec := r', console := console n1 @ w\<rparr>)"
    using trs nt n1 r' by (simp add: tf_message_callback_def)
  moreover have "logged (rec (n1\<lparr>rec := r', console := console n1 @ w\<rparr>)) = logged (rec n) @
             List.map_filter
               (tf_emission (tf_frame_to_entity_path n)
                  (fst (normalize_timestamp n (stamp (tf_header (hd (transforms msg)))))))
               (transforms msg)"
    using l trs nt by simp
  ultimately show "\<exists>n'. tf_message_callback n msg = Inr n' \<and>
           logged (rec n') = logged (rec n) @
             List.map_filter
               (tf_emission (tf_frame_to_entity_path n)
                  (fst (normalize_timestamp n (stamp (tf_header (hd (transforms msg)))))))
               (transforms msg)"
    by blast
qed

theorem tf_message_callback_first_entry_witness:
  "tf_message_callback (members_at_construction 0 (\<lambda>target source time timeout. None))
     \<lparr>transforms = []\<rparr> = Inl Index_out_of_bounds \<and>
   (\<exists>n'. tf_message_callback
            ((members_at_construction 0 (\<lambda>target source time timeout. None))
               \<lparr>tf_frame_to_entity_path := [''base_link'' \<mapsto> ''/odom/base_link''],
                time_offset := 10, time_offset_initialized := True\<rparr>)
            \<lparr>transforms =
               [\<lparr>tf_header = \<lparr>stamp = 12, frame_id = ''odom''\<rparr>, child_frame_id = ''base_link'',
                 translation = Vector3 4 5 6, rotation = Quaternion 0 0 1 0\<rparr>,
                \<lparr>tf_header = \<lparr>stamp = 15, frame_id = ''odom''\<rparr>, child_frame_id = ''base_link'',
                 translation = Vector3 7 8 9, rotation = Quaternion 0 0 0 1\<rparr>]\<rparr> = Inr n' \<and>
          logged (rec n') =
            [(''/odom/base_link'', Some 2, Transform3D (Vector3 4 5 6) (0, 0, 0, 1)),
             (''/odom/base_link'', Some 2, Transform3D (Vector3 7 8 9) (1, 0, 0, 0))])"
  using tf_message_callback_first_entry
    [of "\<lparr>transforms = []\<rparr>" "members_at_construction 0 (\<lambda>target source time timeout. None)"]
   tf_message_callback_first_entry
    [of "\<lparr>transforms =
               [\<lparr>tf_header = \<lparr>stamp = 12, frame_id = ''odom''\<rparr>, child_frame_id = ''base_link'',
                 translation = Vector3 4 5 6, rotation = Quaternion 0 0 1 0\<rparr>,
                \<lparr>tf_header = \<lparr>stamp = 15, frame_id = ''odom''\<rparr>, child_frame_id = ''base_link'',
                 translation = Vector3 7 8 9, rotation = Quaternion 0 0 0 1\<rparr>]\<rparr>"
        "(members_at_construction 0 (\<lambda>target source time timeout. None))
               \<lparr>tf_frame_to_entity_path := [''base_link'' \<mapsto> ''/odom/base_link''],
                time_offset := 10, time_offset_initialized := True\<rparr>"]
  by (auto simp: members_at_construction_def normalize_timestamp_def List.map_filter_simps
      tf_emission_def)

end
